theory Spec2Isabelle
  imports Main
begin

section \<open>FROST-BIP340 participant: a shallow embedding of \<open>frost/participant.py\<close>\<close>

text \<open>
  The module \<open>participant.py\<close> defines the class \<open>Participant\<close>. Its methods are
  embedded as HOL functions over a record of the instance attributes. A method that
  assigns to \<open>self\<close> returns the updated record; a \<open>raise\<close> is the \<open>Inl\<close> branch of a
  sum; a call of \<open>secrets.randbits(256)\<close> reads the next element of an explicit random
  source. Python integers are \<open>int\<close>, tuples are lists, \<open>bytes\<close> are lists of
  \<open>char\<close> (a \<open>char\<close> is one byte).
\<close>

subsection \<open>Values, errors and the imported names\<close>

type_synonym bytes = string

datatype error =
    ValueError string
  | TypeError string
  | OverflowError
  | IndexError

text \<open>
  Modelled from the spec: \<open>frost/constants.py\<close> is not among the sources. The spec
  fixes \<open>Q\<close> as the order of the secp256k1 group
  (\<open>0xFFFFFFFFFFFFFFFFFFFFFFFFFFFFFFFEBAAEDCE6AF48A03BBFD25E8CD0364141\<close>).
\<close>

definition Q :: int where
  "Q = 115792089237316195423570985008687907852837564279074904382605163141518161494337"

text \<open>
  The class \<open>Point\<close> (\<open>frost/point.py\<close>) is not among the sources. \<open>participant.py\<close>
  reads the attributes \<open>x\<close> and \<open>y\<close> of a point, both \<open>None\<close> for the point at
  infinity, which \<open>Point()\<close> constructs.
\<close>

datatype point = Point (px: "int option") (py: "int option")

definition infinity :: point where
  "infinity = Point None None"

text \<open>
  Everything else that \<open>participant.py\<close> imports is a parameter of the embedding: the
  generator \<open>G\<close>, point addition (\<open>+\<close>), scalar multiplication (\<open>scalar * point\<close>),
  \<open>Point.sec_serialize\<close>, \<open>hashlib.sha256\<close> (as the digest of a byte string) and
  the three class methods of \<open>Aggregator\<close> that \<open>sign\<close> calls. Functions that can raise
  return a sum.
\<close>

record env =
  G :: point
  point_add :: "point \<Rightarrow> point \<Rightarrow> point"
  point_mul :: "int \<Rightarrow> point \<Rightarrow> point"
  sec_serialize :: "point \<Rightarrow> error + bytes"
  sha256 :: "bytes \<Rightarrow> bytes"
  group_commitment :: "bytes \<Rightarrow> (point \<times> point) list \<Rightarrow> int list \<Rightarrow> error + point"
  challenge_hash :: "point \<Rightarrow> point \<Rightarrow> bytes \<Rightarrow> error + int"
  binding_value :: "int \<Rightarrow> bytes \<Rightarrow> (point \<times> point) list \<Rightarrow> int list \<Rightarrow> error + int"

text \<open>
  The random source: \<open>rng k\<close> is the value of the \<open>k\<close>-th call of
  \<open>secrets.randbits(256)\<close> from now on. \<open>sample n rng\<close> is
  \<open>tuple(secrets.randbits(256) % Q for _ in range(n))\<close> together with the source that
  remains.
\<close>

type_synonym rng = "nat \<Rightarrow> int"

definition sample :: "nat \<Rightarrow> rng \<Rightarrow> int list \<times> rng" where
  "sample n rng = (map (\<lambda>k. rng k mod Q) [0..<n], \<lambda>k. rng (k + n))"

text \<open>Python built-ins: \<open>int.to_bytes(1, "big")\<close>, \<open>int.from_bytes(_, "big")\<close>,
  three-argument \<open>pow\<close> with a non-negative exponent, and tuple indexing (a negative
  index counts from the end).\<close>

definition to_bytes1 :: "int \<Rightarrow> error + bytes" where
  "to_bytes1 i = (if 0 \<le> i \<and> i \<le> 255 then Inr [char_of i] else Inl OverflowError)"

definition from_bytes_big :: "bytes \<Rightarrow> int" where
  "from_bytes_big bs = foldl (\<lambda>acc b. acc * 256 + of_char b) 0 bs"

definition pow_mod :: "int \<Rightarrow> int \<Rightarrow> int \<Rightarrow> int" where
  "pow_mod b e m = b ^ nat e mod m"

definition tuple_get :: "'a list \<Rightarrow> int \<Rightarrow> error + 'a" where
  "tuple_get xs i =
     (if 0 \<le> i \<and> i < int (length xs) then Inr (xs ! nat i)
      else if i < 0 \<and> 0 \<le> i + int (length xs) then Inr (xs ! nat (i + int (length xs)))
      else Inl IndexError)"

subsection \<open>The participant\<close>

record participant =
  index :: int
  threshold :: int
  participants :: int
  coefficients :: "int list option"
  coefficient_commitments :: "point list option"
  proof_of_knowledge :: "(point \<times> int) option"
  shares :: "int list option"
  aggregate_share :: "int option"
  nonce_pair :: "(int \<times> int) option"
  nonce_commitment_pair :: "(point \<times> point) option"
  public_key :: "point option"
  repair_shares :: "int list option"
  aggregate_repair_share :: "int option"
  nonce_pair_r_ij :: "(int \<times> point) option"
  nonce_R_ij_commitments :: "bytes list"
  nonce_R_ij :: "point list"
  aggregate_nonce_R_i :: "point option"
  challenge_hash_c :: "bytes option"
  participant_a_i :: "int option"
  agg_pk :: "point option"
  partial_signature_s_ij :: "int option"

definition CONTEXT :: bytes where
  "CONTEXT = ''FROST-BIP340''"

text \<open>
  \<open>__init__\<close> takes arbitrary Python objects and tests \<open>isinstance(arg, int)\<close> on
  each; \<open>PyOther\<close> stands for any object that is not an \<open>int\<close>. The attribute
  assignments that follow the test are \<open>new_participant\<close>.
\<close>

datatype py_value = PyInt int | PyOther

definition new_participant :: "int \<Rightarrow> int \<Rightarrow> int \<Rightarrow> participant" where
  "new_participant i t n =
     \<lparr>index = i, threshold = t, participants = n,
      coefficients = None, coefficient_commitments = None,
      proof_of_knowledge = None, shares = None, aggregate_share = None,
      nonce_pair = None, nonce_commitment_pair = None, public_key = None,
      repair_shares = None, aggregate_repair_share = None,
      nonce_pair_r_ij = None, nonce_R_ij_commitments = [], nonce_R_ij = [],
      aggregate_nonce_R_i = None, challenge_hash_c = None,
      participant_a_i = None, agg_pk = None, partial_signature_s_ij = None\<rparr>"

definition Participant_init :: "py_value \<Rightarrow> py_value \<Rightarrow> py_value \<Rightarrow> error + participant" where
  "Participant_init index_arg threshold_arg participants_arg =
     (case (index_arg, threshold_arg, participants_arg) of
        (PyInt i, PyInt t, PyInt n) \<Rightarrow> Inr (new_participant i t n)
      | _ \<Rightarrow> Inl (ValueError ''All arguments (index, threshold, participants) must be integers.''))"

subsection \<open>Polynomials, proof of knowledge, commitments\<close>

definition generate_polynomial :: "rng \<Rightarrow> participant \<Rightarrow> participant \<times> rng" where
  "generate_polynomial rng P =
     (case sample (nat (threshold P)) rng of
        (cs, rng') \<Rightarrow> (P\<lparr>coefficients := Some cs\<rparr>, rng'))"

definition generate_refresh_polynomial :: "rng \<Rightarrow> participant \<Rightarrow> participant \<times> rng" where
  "generate_refresh_polynomial rng P =
     (case sample (nat (threshold P - 1)) rng of
        (cs, rng') \<Rightarrow> (P\<lparr>coefficients := Some (0 # cs)\<rparr>, rng'))"

definition generate_threshold_increase_polynomial ::
    "rng \<Rightarrow> participant \<Rightarrow> int \<Rightarrow> participant \<times> rng" where
  "generate_threshold_increase_polynomial rng P new_threshold =
     (case sample (nat (new_threshold - 1)) rng of
        (cs, rng') \<Rightarrow> (P\<lparr>coefficients := Some cs\<rparr>, rng'))"

text \<open>The challenge \<open>c = H(i, \<Phi>, g^a_0, R)\<close> as an integer, computed the same way by
  the prover (four \<open>update\<close> calls) and by the verifier (one concatenation).\<close>

definition challenge_int :: "env \<Rightarrow> bytes \<Rightarrow> bytes \<Rightarrow> bytes \<Rightarrow> int" where
  "challenge_int E index_byte secret_commitment_bytes nonce_commitment_bytes =
     from_bytes_big
       (sha256 E (index_byte @ CONTEXT @ secret_commitment_bytes @ nonce_commitment_bytes))"

definition compute_proof_of_knowledge ::
    "env \<Rightarrow> rng \<Rightarrow> participant \<Rightarrow> error + participant \<times> rng" where
  "compute_proof_of_knowledge E rng P =
     (case coefficients P of
        None \<Rightarrow> Inl (ValueError ''Polynomial coefficients must be initialized.'')
      | Some [] \<Rightarrow> Inl (ValueError ''Polynomial coefficients must be initialized.'')
      | Some (secret # _) \<Rightarrow>
          (case sample 1 rng of
             (ks, rng') \<Rightarrow>
               (let nonce = hd ks;
                    nonce_commitment = point_mul E nonce (G E)
                in case to_bytes1 (index P) of
                     Inl err \<Rightarrow> Inl err
                   | Inr index_byte \<Rightarrow>
                       (let secret_commitment = point_mul E secret (G E)
                        in case sec_serialize E secret_commitment of
                             Inl err \<Rightarrow> Inl err
                           | Inr secret_commitment_bytes \<Rightarrow>
                               (case sec_serialize E nonce_commitment of
                                  Inl err \<Rightarrow> Inl err
                                | Inr nonce_commitment_bytes \<Rightarrow>
                                    (let challenge_hash_int =
                                           challenge_int E index_byte secret_commitment_bytes
                                             nonce_commitment_bytes;
                                         s = (nonce + secret * challenge_hash_int) mod Q
                                     in Inr (P\<lparr>proof_of_knowledge := Some (nonce_commitment, s)\<rparr>,
                                             rng')))))))"

definition compute_coefficient_commitments :: "env \<Rightarrow> participant \<Rightarrow> error + participant" where
  "compute_coefficient_commitments E P =
     (case coefficients P of
        None \<Rightarrow> Inl (ValueError ''Polynomial coefficients must be initialized.'')
      | Some [] \<Rightarrow> Inl (ValueError ''Polynomial coefficients must be initialized.'')
      | Some cs \<Rightarrow>
          Inr (P\<lparr>coefficient_commitments :=
                     Some (map (\<lambda>coefficient. point_mul E coefficient (G E)) cs)\<rparr>))"

definition verify_proof_of_knowledge ::
    "env \<Rightarrow> participant \<Rightarrow> point \<times> int \<Rightarrow> point \<Rightarrow> int \<Rightarrow> error + bool" where
  "verify_proof_of_knowledge E P proof secret_commitment idx =
     (case proof of
        (nonce_commitment, s) \<Rightarrow>
          (case to_bytes1 idx of
             Inl err \<Rightarrow> Inl err
           | Inr index_byte \<Rightarrow>
               (case sec_serialize E secret_commitment of
                  Inl err \<Rightarrow> Inl err
                | Inr secret_commitment_bytes \<Rightarrow>
                    (case sec_serialize E nonce_commitment of
                       Inl err \<Rightarrow> Inl err
                     | Inr nonce_commitment_bytes \<Rightarrow>
                         (let challenge_hash_int =
                                challenge_int E index_byte secret_commitment_bytes
                                  nonce_commitment_bytes;
                              expected_nonce_commitment =
                                point_add E (point_mul E s (G E))
                                  (point_mul E (Q - challenge_hash_int) secret_commitment)
                          in Inr (nonce_commitment = expected_nonce_commitment))))))"

subsection \<open>The three initialisers\<close>

definition init_keygen :: "env \<Rightarrow> rng \<Rightarrow> participant \<Rightarrow> error + participant \<times> rng" where
  "init_keygen E rng P =
     (case generate_polynomial rng P of
        (P1, rng1) \<Rightarrow>
          (case compute_proof_of_knowledge E rng1 P1 of
             Inl err \<Rightarrow> Inl err
           | Inr (P2, rng2) \<Rightarrow>
               (case compute_coefficient_commitments E P2 of
                  Inl err \<Rightarrow> Inl err
                | Inr P3 \<Rightarrow> Inr (P3, rng2))))"

definition init_refresh :: "env \<Rightarrow> rng \<Rightarrow> participant \<Rightarrow> error + participant \<times> rng" where
  "init_refresh E rng P =
     (case generate_refresh_polynomial rng P of
        (P1, rng1) \<Rightarrow>
          (case compute_coefficient_commitments E P1 of
             Inl err \<Rightarrow> Inl err
           | Inr P2 \<Rightarrow> Inr (P2, rng1)))"

definition init_threshold_increase ::
    "env \<Rightarrow> rng \<Rightarrow> participant \<Rightarrow> int \<Rightarrow> error + participant \<times> rng" where
  "init_threshold_increase E rng P new_threshold =
     (if new_threshold \<le> threshold P
      then Inl (ValueError ''New threshold must be greater than the current threshold.'')
      else
        (case generate_threshold_increase_polynomial rng P new_threshold of
           (P1, rng1) \<Rightarrow>
             (case compute_proof_of_knowledge E rng1 P1 of
                Inl err \<Rightarrow> Inl err
              | Inr (P2, rng2) \<Rightarrow>
                  (case compute_coefficient_commitments E P2 of
                     Inl err \<Rightarrow> Inl err
                   | Inr P3 \<Rightarrow> Inr (P3\<lparr>threshold := new_threshold\<rparr>, rng2)))))"

subsection \<open>Lagrange coefficient\<close>

text \<open>The \<open>for\<close> loop of \<open>_lagrange_coefficient\<close>, with its two accumulators.\<close>

fun lagrange_loop :: "int \<Rightarrow> int \<Rightarrow> int list \<Rightarrow> int \<Rightarrow> int \<Rightarrow> int \<times> int" where
  "lagrange_loop i x [] numerator denominator = (numerator, denominator)"
| "lagrange_loop i x (j # js) numerator denominator =
     (if j = i then lagrange_loop i x js numerator denominator
      else lagrange_loop i x js (numerator * (x - j)) (denominator * (i - j)))"

definition lagrange_coefficient :: "participant \<Rightarrow> int list \<Rightarrow> int \<Rightarrow> error + int" where
  "lagrange_coefficient P participant_indexes x =
     (if length participant_indexes \<noteq> length (remdups participant_indexes)
      then Inl (ValueError ''Participant indexes must be unique.'')
      else
        (case lagrange_loop (index P) x participant_indexes 1 1 of
           (numerator, denominator) \<Rightarrow>
             Inr ((numerator * pow_mod denominator (Q - 2) Q) mod Q)))"

subsection \<open>Repair shares and threshold increase\<close>

definition generate_repair_shares ::
    "rng \<Rightarrow> participant \<Rightarrow> int list \<Rightarrow> int \<Rightarrow> error + participant \<times> rng" where
  "generate_repair_shares rng P repair_participants idx =
     (case aggregate_share P of
        None \<Rightarrow> Inl (ValueError ''Aggregate share has not been initialized.'')
      | Some s \<Rightarrow>
          (case lagrange_coefficient P repair_participants idx of
             Inl err \<Rightarrow> Inl err
           | Inr lagrange \<Rightarrow>
               (case sample (nat (threshold P - 1)) rng of
                  (random_shares, rng') \<Rightarrow>
                    (let final_share = (lagrange * s - sum_list random_shares) mod Q
                     in Inr (P\<lparr>repair_shares := Some (random_shares @ [final_share])\<rparr>,
                             rng')))))"

text \<open>\<open>not self.shares\<close> holds for \<open>None\<close> and for the empty tuple;
  \<open>not self.aggregate_share\<close> holds for \<open>None\<close> and for \<open>0\<close>.\<close>

definition increase_threshold :: "participant \<Rightarrow> int list \<Rightarrow> error + participant" where
  "increase_threshold P other_shares =
     (case shares P of
        None \<Rightarrow> Inl (ValueError ''Participant's shares have not been initialized.'')
      | Some [] \<Rightarrow> Inl (ValueError ''Participant's shares have not been initialized.'')
      | Some ss \<Rightarrow>
          (case aggregate_share P of
             None \<Rightarrow>
               Inl (ValueError ''Participant's aggregate share has not been initialized.'')
           | Some s \<Rightarrow>
               if s = 0
               then Inl (ValueError ''Participant's aggregate share has not been initialized.'')
               else
                 (case tuple_get ss (index P - 1) of
                    Inl err \<Rightarrow> Inl err
                  | Inr own_share \<Rightarrow>
                      (let aggregate = (own_share + sum_list other_shares) mod Q
                       in Inr (P\<lparr>aggregate_share := Some (s + (aggregate * index P) mod Q)\<rparr>)))))"

subsection \<open>Signing\<close>

definition sign ::
    "env \<Rightarrow> participant \<Rightarrow> bytes \<Rightarrow> (point \<times> point) list \<Rightarrow> int list
       \<Rightarrow> error + int \<times> participant" where
  "sign E P message nonce_commitment_pairs participant_indexes =
     (case nonce_pair P of
        None \<Rightarrow> Inl (ValueError ''Nonce pair has not been initialized.'')
      | Some np \<Rightarrow>
     (case public_key P of
        None \<Rightarrow> Inl (ValueError ''Public key has not been initialized.'')
      | Some Y \<Rightarrow>
     if px Y = None \<or> py Y = None
     then Inl (ValueError ''Public key is the point at infinity.'')
     else
     (case aggregate_share P of
        None \<Rightarrow> Inl (ValueError ''Aggregate share has not been initialized.'')
      | Some s \<Rightarrow>
     (case group_commitment E message nonce_commitment_pairs participant_indexes of
        Inl err \<Rightarrow> Inl err
      | Inr R \<Rightarrow>
     if px R = None \<or> py R = None
     then Inl (ValueError ''Group commitment is the point at infinity.'')
     else
     (case challenge_hash E R Y message of
        Inl err \<Rightarrow> Inl err
      | Inr c \<Rightarrow>
     (case (if the (py R) mod 2 \<noteq> 0 then (Q - fst np, Q - snd np) else np) of
        (first_nonce, second_nonce) \<Rightarrow>
     (case binding_value E (index P) message nonce_commitment_pairs participant_indexes of
        Inl err \<Rightarrow> Inl err
      | Inr binding \<Rightarrow>
     (case lagrange_coefficient P participant_indexes 0 of
        Inl err \<Rightarrow> Inl err
      | Inr lagrange \<Rightarrow>
     (let share = (if the (py Y) mod 2 \<noteq> 0 then Q - s else s)
      in Inr ((first_nonce + second_nonce * binding + lagrange * share * c) mod Q, P))))))))))"

subsection \<open>Assumptions on the curve, and a concrete environment\<close>

text \<open>
  What the proof-of-knowledge equations need from \<open>Point\<close>: the multiples of \<open>G\<close>
  add and scale like the integers modulo \<open>Q\<close>, and \<open>G\<close> has order exactly \<open>Q\<close>.
\<close>

definition generator_has_order_Q :: "env \<Rightarrow> bool" where
  "generator_has_order_Q E \<longleftrightarrow>
     (\<forall>a b. point_add E (point_mul E a (G E)) (point_mul E b (G E)) = point_mul E (a + b) (G E)) \<and>
     (\<forall>a b. point_mul E a (point_mul E b (G E)) = point_mul E (a * b) (G E)) \<and>
     (\<forall>a b. (point_mul E a (G E) = point_mul E b (G E)) = (a mod Q = b mod Q))"

text \<open>
  A concrete environment on which the functions can be evaluated. It is not secp256k1:
  the group is the integers modulo \<open>Q\<close> under addition, the point \<open>k * G\<close> carries
  \<open>k mod Q\<close> in both attributes, and \<open>0 * G\<close> is the point at infinity. The digest
  keeps the first 32 bytes of its input, and the aggregator adds up all nonce
  commitments, reads the message as the challenge and binds with \<open>1\<close>.
\<close>

definition residue_point :: "int \<Rightarrow> point" where
  "residue_point k = (if k mod Q = 0 then infinity else Point (Some (k mod Q)) (Some (k mod Q)))"

definition residue_add :: "point \<Rightarrow> point \<Rightarrow> point" where
  "residue_add A B =
     (case px A of None \<Rightarrow> B
      | Some a \<Rightarrow> (case px B of None \<Rightarrow> A | Some b \<Rightarrow> residue_point (a + b)))"

definition residue_mul :: "int \<Rightarrow> point \<Rightarrow> point" where
  "residue_mul k A = (case px A of None \<Rightarrow> infinity | Some a \<Rightarrow> residue_point (k * a))"

definition residue_env :: env where
  "residue_env =
     \<lparr>G = residue_point 1,
      point_add = residue_add,
      point_mul = residue_mul,
      sec_serialize =
        (\<lambda>A. case px A of
               None \<Rightarrow> Inl (ValueError ''Trying to serialize the point at infinity.'')
             | Some a \<Rightarrow> Inr [char_of a]),
      sha256 = take 32,
      group_commitment =
        (\<lambda>message pairs indexes.
           Inr (foldr (\<lambda>pair acc. residue_add (fst pair) (residue_add (snd pair) acc))
                  pairs infinity)),
      challenge_hash = (\<lambda>R Y message. Inr (from_bytes_big message)),
      binding_value = (\<lambda>i message pairs indexes. Inr 1)\<rparr>"

text \<open>A participant of that environment that is ready to sign (index 1, public key
  \<open>9 * G\<close>), and the nonce commitments of a signing session whose group commitment is
  \<open>19 * G\<close>; both points have an odd \<open>y\<close>.\<close>

definition example_signer :: participant where
  "example_signer =
     (new_participant 1 2 3)
       \<lparr>aggregate_share := Some 11, nonce_pair := Some (3, 4),
        public_key := Some (residue_point 9)\<rparr>"

definition example_commitments :: "(point \<times> point) list" where
  "example_commitments =
     [(residue_point 3, residue_point 4), (residue_point 5, residue_point 7)]"

section \<open>Properties\<close>

subsection \<open>Lagrange coefficient\<close>

lemma lagrange_loop_prod:
  "lagrange_loop i x js n d =
     (n * prod_list (map (\<lambda>j. x - j) (filter (\<lambda>j. j \<noteq> i) js)),
      d * prod_list (map (\<lambda>j. i - j) (filter (\<lambda>j. j \<noteq> i) js)))"
  by (induction js arbitrary: n d) (simp_all add: mult.assoc)

lemma prod_list_power_int:
  "prod_list (map (\<lambda>j. (f j :: int) ^ e) xs) = prod_list (map f xs) ^ e"
  by (induction xs) (simp_all add: power_mult_distrib)

lemma prod_list_mod_factors:
  "prod_list (map (\<lambda>j. a j * (b j mod m)) xs) mod m =
     (prod_list (map a xs) * prod_list (map b xs)) mod (m::int)"
proof (induction xs)
  case Nil
  show ?case by simp
next
  case (Cons y ys)
  let ?A = "prod_list (map a ys)" and ?B = "prod_list (map b ys)"
  let ?P = "prod_list (map (\<lambda>j. a j * (b j mod m)) ys)"
  have "(a y * (b y mod m) * ?P) mod m = ((a y * (b y mod m)) mod m * (?P mod m)) mod m"
    by (simp add: mod_mult_eq)
  also have "\<dots> = ((a y * b y) mod m * ((?A * ?B) mod m)) mod m"
    by (simp add: Cons.IH mod_mult_right_eq)
  also have "\<dots> = ((a y * b y) * (?A * ?B)) mod m"
    by (simp add: mod_mult_eq)
  finally show ?case by (simp add: mult_ac)
qed

text \<open>One inversion of the product of the denominators is the product of the
  inversions of each denominator, modulo \<open>Q\<close>.\<close>

lemma lagrange_value:
  "(prod_list (map (\<lambda>j. x - j) js) * pow_mod (prod_list (map (\<lambda>j. i - j) js)) (Q - 2) Q) mod Q =
   prod_list (map (\<lambda>j. (x - j) * pow_mod (i - j) (Q - 2) Q) js) mod Q"
proof -
  let ?e = "nat (Q - 2)"
  have "prod_list (map (\<lambda>j. (x - j) * pow_mod (i - j) (Q - 2) Q) js) mod Q =
        (prod_list (map (\<lambda>j. x - j) js) * prod_list (map (\<lambda>j. (i - j) ^ ?e) js)) mod Q"
    unfolding pow_mod_def by (rule prod_list_mod_factors)
  also have "\<dots> = (prod_list (map (\<lambda>j. x - j) js) * (prod_list (map (\<lambda>j. i - j) js) ^ ?e)) mod Q"
    by (simp only: prod_list_power_int)
  also have "\<dots> = (prod_list (map (\<lambda>j. x - j) js) * pow_mod (prod_list (map (\<lambda>j. i - j) js)) (Q - 2) Q) mod Q"
    unfolding pow_mod_def by (simp add: mod_mult_right_eq)
  finally show ?thesis by simp
qed

lemma lagrange_coefficient_distinct:
  "distinct S \<Longrightarrow>
   lagrange_coefficient P S x =
     Inr (prod_list (map (\<lambda>j. (x - j) * pow_mod (index P - j) (Q - 2) Q)
            (filter (\<lambda>j. j \<noteq> index P) S)) mod Q)"
  by (simp add: lagrange_coefficient_def lagrange_loop_prod lagrange_value distinct_remdups_id)

lemma lagrange_coefficient_duplicate:
  "\<not> distinct S \<Longrightarrow>
   lagrange_coefficient P S x = Inl (ValueError ''Participant indexes must be unique.'')"
  using length_remdups_eq [of S] remdups_id_iff_distinct [of S]
  by (simp add: lagrange_coefficient_def del: length_remdups_eq remdups_id_iff_distinct)

lemma filter_neq_remove1: "distinct S \<Longrightarrow> filter (\<lambda>j. j \<noteq> i) S = remove1 i S"
  by (induction S) (auto simp: remove1_idem)

text \<open>
  Claim C7. \<open>_lagrange_coefficient(participant_indexes, x)\<close> raises \<open>ValueError\<close>
  whenever \<open>participant_indexes\<close> has a duplicate. For a duplicate-free tuple that
  contains \<open>self.index\<close> it returns the product, over the tuple with the one entry
  \<open>self.index\<close> removed, of \<open>(x - p_j) * (p_i - p_j)^(-1)\<close> modulo \<open>Q\<close>, every inverse
  being \<open>pow(p_i - p_j, Q - 2, Q)\<close>: exactly one factor is skipped, and no remaining
  factor belongs to \<open>self.index\<close>.
\<close>

theorem lagrange_coefficient_formula:
  "(\<not> distinct S \<longrightarrow>
      lagrange_coefficient P S x = Inl (ValueError ''Participant indexes must be unique.'')) \<and>
   (distinct S \<and> index P \<in> set S \<longrightarrow>
      lagrange_coefficient P S x =
        Inr (prod_list (map (\<lambda>j. (x - j) * pow_mod (index P - j) (Q - 2) Q)
               (remove1 (index P) S)) mod Q) \<and>
      length (remove1 (index P) S) = length S - 1 \<and>
      index P \<notin> set (remove1 (index P) S))"
  by (auto simp: lagrange_coefficient_duplicate lagrange_coefficient_distinct
      filter_neq_remove1 length_remove1)

theorem lagrange_coefficient_formula_witness:
  "lagrange_coefficient (new_participant 2 2 3) [1, 2, 3] 0 = Inr (Q - 3) \<and>
   lagrange_coefficient (new_participant 2 2 3) [1, 2, 1] 0 =
     Inl (ValueError ''Participant indexes must be unique.'')"
  using lagrange_coefficient_formula [of "[1, 2, 3]" "new_participant 2 2 3" 0]
    lagrange_coefficient_formula [of "[1, 2, 1]" "new_participant 2 2 3" 0]
  by (simp add: new_participant_def pow_mod_def Q_def)

subsection \<open>The concrete environment satisfies the assumptions\<close>

lemma residue_point_eq: "(residue_point a = residue_point b) = (a mod Q = b mod Q)"
  by (auto simp: residue_point_def infinity_def)

lemma px_residue_point: "px (residue_point a) = (if a mod Q = 0 then None else Some (a mod Q))"
  by (simp add: residue_point_def infinity_def)

lemma residue_add_points: "residue_add (residue_point a) (residue_point b) = residue_point (a + b)"
proof -
  have "residue_point (a mod Q + b mod Q) = residue_point (a + b)"
    by (simp add: residue_point_eq mod_add_eq)
  moreover have "a mod Q = 0 \<Longrightarrow> residue_point b = residue_point (a + b)"
    by (simp add: residue_point_eq) (metis add.left_neutral mod_add_left_eq)
  moreover have "b mod Q = 0 \<Longrightarrow> residue_point a = residue_point (a + b)"
    by (simp add: residue_point_eq) (metis add.right_neutral mod_add_right_eq)
  ultimately show ?thesis
    by (auto simp: residue_add_def px_residue_point)
qed

lemma residue_mul_point: "residue_mul a (residue_point b) = residue_point (a * b)"
proof -
  have "residue_point (a * (b mod Q)) = residue_point (a * b)"
    by (simp add: residue_point_eq mod_mult_right_eq)
  moreover have "b mod Q = 0 \<Longrightarrow> infinity = residue_point (a * b)"
    by (simp add: residue_point_def) (metis mod_mult_right_eq mult_zero_right mod_0)
  ultimately show ?thesis
    by (auto simp: residue_mul_def px_residue_point)
qed

lemma residue_env_order: "generator_has_order_Q residue_env"
  using residue_mul_point [of _ 1]
  by (simp add: generator_has_order_Q_def residue_env_def residue_add_points
      residue_mul_point residue_point_eq)

subsection \<open>Proof of knowledge\<close>

lemma verify_equation:
  assumes ok: "generator_has_order_Q E"
  shows "(point_mul E n (G E) =
            point_add E (point_mul E s (G E)) (point_mul E (Q - c) (point_mul E a (G E)))) =
         (s mod Q = (n + a * c) mod Q)"
proof -
  have "point_add E (point_mul E s (G E)) (point_mul E (Q - c) (point_mul E a (G E))) =
        point_mul E (s + (Q - c) * a) (G E)"
    using ok by (simp add: generator_has_order_Q_def)
  then have "(point_mul E n (G E) =
            point_add E (point_mul E s (G E)) (point_mul E (Q - c) (point_mul E a (G E)))) =
         (n mod Q = (s + (Q - c) * a) mod Q)"
    using ok by (simp add: generator_has_order_Q_def)
  also have "\<dots> = (s mod Q = (n + a * c) mod Q)"
  proof -
    have e: "s + (Q - c) * a = (s - a * c) + Q * a"
      by (simp add: algebra_simps)
    have "(n mod Q = (s - a * c) mod Q) = (s mod Q = (n + a * c) mod Q)"
      by (metis add.commute diff_add_cancel mod_add_left_eq mod_diff_left_eq add_diff_cancel_right')
    then show ?thesis
      unfolding e by simp
  qed
  finally show ?thesis .
qed

lemma compute_proof_of_knowledge_result:
  assumes "compute_proof_of_knowledge E rng P = Inr (P', rng')"
  shows "\<exists>secret cs index_byte sb nb.
           coefficients P = Some (secret # cs) \<and>
           to_bytes1 (index P) = Inr index_byte \<and>
           sec_serialize E (point_mul E secret (G E)) = Inr sb \<and>
           sec_serialize E (point_mul E (rng 0 mod Q) (G E)) = Inr nb \<and>
           P' = P\<lparr>proof_of_knowledge :=
                    Some (point_mul E (rng 0 mod Q) (G E),
                          (rng 0 mod Q + secret * challenge_int E index_byte sb nb) mod Q)\<rparr>"
  using assms
  by (auto simp: compute_proof_of_knowledge_def sample_def Let_def
      split: option.splits list.splits sum.splits)

text \<open>
  Claim C1. Proof-of-knowledge round trip, for a curve whose generator has order \<open>Q\<close>.
  When \<open>_compute_proof_of_knowledge\<close> returns, the coefficients are a non-empty tuple
  with first entry \<open>a_0\<close>, the stored proof is a pair \<open>(R, \<mu>)\<close>,
  \<open>verify_proof_of_knowledge((R, \<mu>), a_0 * G, self.index)\<close> returns \<open>True\<close>, and
  for every integer \<open>\<mu>'\<close> that differs from \<open>\<mu>\<close> modulo \<open>Q\<close> the same call with
  \<open>(R, \<mu>')\<close> returns \<open>False\<close>.
\<close>

theorem proof_of_knowledge_round_trip:
  assumes "generator_has_order_Q E"
    and "compute_proof_of_knowledge E rng P = Inr (P', rng')"
  shows "\<exists>secret cs R mu.
           coefficients P = Some (secret # cs) \<and>
           proof_of_knowledge P' = Some (R, mu) \<and>
           verify_proof_of_knowledge E P' (R, mu) (point_mul E secret (G E)) (index P') = Inr True \<and>
           (\<forall>mu'. mu' mod Q \<noteq> mu mod Q \<longrightarrow>
              verify_proof_of_knowledge E P' (R, mu') (point_mul E secret (G E)) (index P') =
                Inr False)"
proof -
  from compute_proof_of_knowledge_result [OF assms(2)]
  obtain secret cs index_byte sb nb where
    c: "coefficients P = Some (secret # cs)" and
    ib: "to_bytes1 (index P) = Inr index_byte" and
    sb: "sec_serialize E (point_mul E secret (G E)) = Inr sb" and
    nb: "sec_serialize E (point_mul E (rng 0 mod Q) (G E)) = Inr nb" and
    P': "P' = P\<lparr>proof_of_knowledge :=
                    Some (point_mul E (rng 0 mod Q) (G E),
                          (rng 0 mod Q + secret * challenge_int E index_byte sb nb) mod Q)\<rparr>"
    by blast
  let ?R = "point_mul E (rng 0 mod Q) (G E)"
  let ?c = "challenge_int E index_byte sb nb"
  let ?mu = "(rng 0 mod Q + secret * ?c) mod Q"
  have v: "verify_proof_of_knowledge E P' (?R, m) (point_mul E secret (G E)) (index P') =
           Inr (m mod Q = ?mu mod Q)" for m
    using verify_equation [OF assms(1), of "rng 0 mod Q" m ?c secret]
    by (simp add: verify_proof_of_knowledge_def P' ib sb nb Let_def)
  have "proof_of_knowledge P' = Some (?R, ?mu)"
    by (simp add: P')
  moreover have "verify_proof_of_knowledge E P' (?R, ?mu) (point_mul E secret (G E)) (index P') = Inr True"
    by (simp add: v)
  moreover have "\<forall>mu'. mu' mod Q \<noteq> ?mu mod Q \<longrightarrow>
      verify_proof_of_knowledge E P' (?R, mu') (point_mul E secret (G E)) (index P') = Inr False"
    by (simp add: v)
  ultimately show ?thesis
    using c by blast
qed

lemma compute_proof_of_knowledge_example: "\<exists>P' rng'. compute_proof_of_knowledge residue_env (\<lambda>k. 7 + int k)
          ((new_participant 1 1 1)\<lparr>coefficients := Some [5]\<rparr>) = Inr (P', rng')"
  by (simp add: compute_proof_of_knowledge_def sample_def residue_env_def Let_def to_bytes1_def
       residue_mul_def residue_point_def infinity_def Q_def new_participant_def)

theorem proof_of_knowledge_round_trip_witness:
  "\<exists>P' rng' R mu.
     compute_proof_of_knowledge residue_env (\<lambda>k. 7 + int k)
       ((new_participant 1 1 1)\<lparr>coefficients := Some [5]\<rparr>) = Inr (P', rng') \<and>
     proof_of_knowledge P' = Some (R, mu) \<and>
     verify_proof_of_knowledge residue_env P' (R, mu)
       (point_mul residue_env 5 (G residue_env)) 1 = Inr True \<and>
     verify_proof_of_knowledge residue_env P' (R, mu + 1)
       (point_mul residue_env 5 (G residue_env)) 1 = Inr False"
proof -
  let ?P = "(new_participant 1 1 1)\<lparr>coefficients := Some [5]\<rparr>"
  obtain P' rng' where
    r: "compute_proof_of_knowledge residue_env (\<lambda>k. 7 + int k) ?P = Inr (P', rng')"
    using compute_proof_of_knowledge_example by blast
  have i: "index P' = 1"
    using r by (auto simp: compute_proof_of_knowledge_def sample_def Let_def new_participant_def
        split: sum.splits)
  from proof_of_knowledge_round_trip [OF residue_env_order r]
  obtain secret cs R mu where
    c: "coefficients ?P = Some (secret # cs)" and
    p: "proof_of_knowledge P' = Some (R, mu)" and
    t: "verify_proof_of_knowledge residue_env P' (R, mu)
          (point_mul residue_env secret (G residue_env)) (index P') = Inr True" and
    f: "\<forall>mu'. mu' mod Q \<noteq> mu mod Q \<longrightarrow>
          verify_proof_of_knowledge residue_env P' (R, mu')
            (point_mul residue_env secret (G residue_env)) (index P') = Inr False"
    by blast
  have s: "secret = 5"
    using c by simp
  have "(mu + 1) mod Q \<noteq> mu mod Q"
  proof
    assume "(mu + 1) mod Q = mu mod Q"
    then have "(mu + 1 - mu) mod Q = 0"
      by (metis mod_diff_cong diff_self mod_0)
    then show False by (simp add: Q_def)
  qed
  with f have "verify_proof_of_knowledge residue_env P' (R, mu + 1)
            (point_mul residue_env secret (G residue_env)) (index P') = Inr False"
    by blast
  with r p t show ?thesis
    unfolding s i by blast
qed

subsection \<open>Signing\<close>

lemma sign_after_preconditions:
  assumes "nonce_pair P = Some (d, e)" and "public_key P = Some Y"
    and "px Y \<noteq> None" and "py Y \<noteq> None" and "aggregate_share P = Some s"
    and "group_commitment E m B S = Inr R" and "px R \<noteq> None" and "py R \<noteq> None"
    and "challenge_hash E R Y m = Inr c"
    and "binding_value E (index P) m B S = Inr rho"
  shows "sign E P m B S =
    (case lagrange_coefficient P S 0 of
       Inl err \<Rightarrow> Inl err
     | Inr lam \<Rightarrow>
         Inr (((if the (py R) mod 2 \<noteq> 0 then Q - d else d) +
               (if the (py R) mod 2 \<noteq> 0 then Q - e else e) * rho +
               lam * (if the (py Y) mod 2 \<noteq> 0 then Q - s else s) * c) mod Q, P))"
proof -
  obtain yx yy rx ry where
    "px Y = Some yx" and "py Y = Some yy" and "px R = Some rx" and "py R = Some ry"
    using assms(3,4,7,8) by auto
  with assms(1,2,5,6,9,10) show ?thesis
    by (simp add: sign_def Let_def split: sum.splits)
qed

lemma sign_returns_self: "sign E P m B S = Inr (z, P') \<Longrightarrow> P' = P"
  by (auto simp: sign_def Let_def split: option.splits sum.splits if_splits prod.splits)


lemma sign_precondition_error:
  assumes "nonce_pair P = None \<or> public_key P = None \<or> aggregate_share P = None \<or>
           (\<exists>Y. public_key P = Some Y \<and> (px Y = None \<or> py Y = None)) \<or>
           (\<exists>R. group_commitment E m B S = Inr R \<and> (px R = None \<or> py R = None))"
  shows "\<exists>msg. sign E P m B S = Inl (ValueError msg)"
  using assms by (auto simp: sign_def split: option.splits sum.splits)

text \<open>
  Claim C2. \<open>sign\<close> raises \<open>ValueError\<close> if \<open>nonce_pair\<close>, \<open>public_key\<close> or
  \<open>aggregate_share\<close> is unset, if the public key \<open>Y\<close> is the point at infinity, or if
  the group commitment \<open>R\<close> returned by the aggregator is the point at infinity (the
  code tests \<open>x is None or y is None\<close>). When none of these holds and the
  aggregator's challenge and binding value are returned, no precondition error is left:
  \<open>sign\<close> computes the partial signature and returns it, the Lagrange step of that
  computation rejecting a tuple of participant indexes with a duplicate (an argument
  error, not a precondition of the participant's state).
\<close>

theorem sign_preconditions:
  "(nonce_pair P = None \<or> public_key P = None \<or> aggregate_share P = None \<or>
    (\<exists>Y. public_key P = Some Y \<and> (px Y = None \<or> py Y = None)) \<or>
    (\<exists>R. group_commitment E m B S = Inr R \<and> (px R = None \<or> py R = None))
      \<longrightarrow> (\<exists>msg. sign E P m B S = Inl (ValueError msg))) \<and>
   (nonce_pair P = Some (d, e) \<and> public_key P = Some Y \<and> px Y \<noteq> None \<and> py Y \<noteq> None \<and>
    aggregate_share P = Some s \<and> group_commitment E m B S = Inr R \<and>
    px R \<noteq> None \<and> py R \<noteq> None \<and> challenge_hash E R Y m = Inr c \<and>
    binding_value E (index P) m B S = Inr rho
      \<longrightarrow> (distinct S \<longrightarrow> (\<exists>z. sign E P m B S = Inr (z, P))) \<and>
          (\<not> distinct S \<longrightarrow>
             sign E P m B S = Inl (ValueError ''Participant indexes must be unique.'')))"
proof (intro conjI impI)
  assume "nonce_pair P = None \<or> public_key P = None \<or> aggregate_share P = None \<or>
    (\<exists>Y. public_key P = Some Y \<and> (px Y = None \<or> py Y = None)) \<or>
    (\<exists>R. group_commitment E m B S = Inr R \<and> (px R = None \<or> py R = None))"
  then show "\<exists>msg. sign E P m B S = Inl (ValueError msg)"
    by (rule sign_precondition_error)
next
  assume a: "nonce_pair P = Some (d, e) \<and> public_key P = Some Y \<and> px Y \<noteq> None \<and> py Y \<noteq> None \<and>
    aggregate_share P = Some s \<and> group_commitment E m B S = Inr R \<and>
    px R \<noteq> None \<and> py R \<noteq> None \<and> challenge_hash E R Y m = Inr c \<and>
    binding_value E (index P) m B S = Inr rho"
  then have eq: "sign E P m B S =
    (case lagrange_coefficient P S 0 of
       Inl err \<Rightarrow> Inl err
     | Inr lam \<Rightarrow>
         Inr (((if the (py R) mod 2 \<noteq> 0 then Q - d else d) +
               (if the (py R) mod 2 \<noteq> 0 then Q - e else e) * rho +
               lam * (if the (py Y) mod 2 \<noteq> 0 then Q - s else s) * c) mod Q, P))"
    by (intro sign_after_preconditions) simp_all
  { assume "distinct S"
    then show "\<exists>z. sign E P m B S = Inr (z, P)"
      by (simp add: eq lagrange_coefficient_distinct) }
  { assume "\<not> distinct S"
    then show "sign E P m B S = Inl (ValueError ''Participant indexes must be unique.'')"
      by (simp add: eq lagrange_coefficient_duplicate) }
qed


text \<open>The definitions to unfold when \<open>sign\<close> is evaluated on the example.\<close>

lemmas ex_defs = sign_def residue_env_def example_signer_def example_commitments_def
  lagrange_coefficient_def pow_mod_def Q_def residue_point_def residue_add_def infinity_def
  from_bytes_big_def new_participant_def


theorem sign_preconditions_witness:
  "sign residue_env example_signer ''hi'' example_commitments [1, 2] =
     Inr (Q - 588045, example_signer) \<and>
   sign residue_env example_signer ''hi'' example_commitments [2, 2] =
     Inl (ValueError ''Participant indexes must be unique.'') \<and>
   (\<exists>msg. sign residue_env (example_signer\<lparr>aggregate_share := None\<rparr>) ''hi''
           example_commitments [1, 2] = Inl (ValueError msg)) \<and>
   (\<exists>msg. sign residue_env example_signer ''hi'' [] [1, 2] = Inl (ValueError msg))"
proof -
  have "\<exists>z. sign residue_env example_signer ''hi'' example_commitments [1, 2] =
          Inr (z, example_signer)"
    using sign_preconditions [of example_signer residue_env "''hi''" example_commitments
        "[1, 2]" 3 4 "residue_point 9" 11 "residue_point 19" 26729 1]
    by (simp add: ex_defs)
  moreover have "sign residue_env example_signer ''hi'' example_commitments [1, 2] =
     Inr (Q - 588045, example_signer)"
    by (simp add: ex_defs)
  moreover have "sign residue_env example_signer ''hi'' example_commitments [2, 2] =
     Inl (ValueError ''Participant indexes must be unique.'')"
    using sign_preconditions [of example_signer residue_env "''hi''" example_commitments
        "[2, 2]" 3 4 "residue_point 9" 11 "residue_point 19" 26729 1]
    by (simp add: ex_defs)
  moreover have "\<exists>msg. sign residue_env (example_signer\<lparr>aggregate_share := None\<rparr>) ''hi''
           example_commitments [1, 2] = Inl (ValueError msg)"
    using sign_preconditions [of "example_signer\<lparr>aggregate_share := None\<rparr>" residue_env
        "''hi''" example_commitments "[1, 2]"]
    by simp
  moreover have "\<exists>msg. sign residue_env example_signer ''hi'' [] [1, 2] = Inl (ValueError msg)"
    using sign_preconditions [of example_signer residue_env "''hi''" "[]" "[1, 2]"]
    by (simp add: residue_env_def infinity_def)
  ultimately show ?thesis by blast
qed

text \<open>
  Claim C8. Frame property of \<open>sign\<close>: when it returns a value, the participant is
  exactly as before the call; in particular \<open>aggregate_share\<close> and \<open>nonce_pair\<close>
  are unchanged. The negations \<open>Q - s\<close>, \<open>Q - d\<close> and \<open>Q - e\<close> are local.
\<close>

theorem sign_frame:
  assumes "sign E P m B S = Inr (z, P')"
  shows "P' = P \<and> aggregate_share P' = aggregate_share P \<and> nonce_pair P' = nonce_pair P"
  using sign_returns_self [OF assms] by simp

theorem sign_frame_witness:
  "sign residue_env example_signer ''hi'' example_commitments [1, 2] =
     Inr ((Q - 3 + (Q - 4) * 1 + 2 * (Q - 11) * 26729) mod Q, example_signer) \<and>
   aggregate_share example_signer = Some 11 \<and> nonce_pair example_signer = Some (3, 4)"
proof -
  have r: "sign residue_env example_signer ''hi'' example_commitments [1, 2] =
     Inr ((Q - 3 + (Q - 4) * 1 + 2 * (Q - 11) * 26729) mod Q, example_signer)"
    by (simp add: ex_defs)
  from sign_frame [OF r] r show ?thesis
    by (simp add: example_signer_def)
qed

subsection \<open>Signing outside the cohort\<close>

lemma filter_absent: "i \<notin> set S \<Longrightarrow> filter (\<lambda>j. j \<noteq> i) S = S"
  by (induction S) auto

text \<open>
  Claim C10. For a duplicate-free tuple that does not contain \<open>self.index\<close>,
  \<open>_lagrange_coefficient\<close> does not raise and skips no factor: it returns the product
  over every entry of the tuple of \<open>(x - p_j) * pow(self.index - p_j, Q - 2, Q)\<close>,
  modulo \<open>Q\<close>. \<open>sign\<close> never tests that its own index is in the cohort: when its
  preconditions hold it returns the partial signature computed with this value at
  \<open>x = 0\<close>.
\<close>

theorem lagrange_coefficient_without_own_index:
  assumes "distinct S" and "index P \<notin> set S"
  shows "lagrange_coefficient P S x =
           Inr (prod_list (map (\<lambda>j. (x - j) * pow_mod (index P - j) (Q - 2) Q) S) mod Q) \<and>
         (nonce_pair P = Some (d, e) \<and> public_key P = Some Y \<and> px Y \<noteq> None \<and> py Y \<noteq> None \<and>
          aggregate_share P = Some s \<and> group_commitment E m B S = Inr R \<and>
          px R \<noteq> None \<and> py R \<noteq> None \<and> challenge_hash E R Y m = Inr c \<and>
          binding_value E (index P) m B S = Inr rho
          \<longrightarrow> sign E P m B S =
                Inr (((if the (py R) mod 2 \<noteq> 0 then Q - d else d) +
                      (if the (py R) mod 2 \<noteq> 0 then Q - e else e) * rho +
                      (prod_list (map (\<lambda>j. (0 - j) * pow_mod (index P - j) (Q - 2) Q) S) mod Q) *
                        (if the (py Y) mod 2 \<noteq> 0 then Q - s else s) * c) mod Q, P))"
proof -
  have l: "lagrange_coefficient P S x =
           Inr (prod_list (map (\<lambda>j. (x - j) * pow_mod (index P - j) (Q - 2) Q) S) mod Q)" for x
    using assms by (simp add: lagrange_coefficient_distinct filter_absent)
  show ?thesis
  proof (intro conjI impI)
    show "lagrange_coefficient P S x =
           Inr (prod_list (map (\<lambda>j. (x - j) * pow_mod (index P - j) (Q - 2) Q) S) mod Q)"
      by (rule l)
  next
    assume a: "nonce_pair P = Some (d, e) \<and> public_key P = Some Y \<and> px Y \<noteq> None \<and> py Y \<noteq> None \<and>
          aggregate_share P = Some s \<and> group_commitment E m B S = Inr R \<and>
          px R \<noteq> None \<and> py R \<noteq> None \<and> challenge_hash E R Y m = Inr c \<and>
          binding_value E (index P) m B S = Inr rho"
    have "sign E P m B S =
      (case lagrange_coefficient P S 0 of
         Inl err \<Rightarrow> Inl err
       | Inr lam \<Rightarrow>
           Inr (((if the (py R) mod 2 \<noteq> 0 then Q - d else d) +
                 (if the (py R) mod 2 \<noteq> 0 then Q - e else e) * rho +
                 lam * (if the (py Y) mod 2 \<noteq> 0 then Q - s else s) * c) mod Q, P))"
      using a by (intro sign_after_preconditions) simp_all
    then show "sign E P m B S =
                Inr (((if the (py R) mod 2 \<noteq> 0 then Q - d else d) +
                      (if the (py R) mod 2 \<noteq> 0 then Q - e else e) * rho +
                      (prod_list (map (\<lambda>j. (0 - j) * pow_mod (index P - j) (Q - 2) Q) S) mod Q) *
                        (if the (py Y) mod 2 \<noteq> 0 then Q - s else s) * c) mod Q, P)"
      by (simp only: l sum.case)
  qed
qed

theorem lagrange_coefficient_without_own_index_witness:
  "lagrange_coefficient (example_signer\<lparr>index := 3\<rparr>) [2, 4] 0 = Inr (Q - 8) \<and>
   sign residue_env (example_signer\<lparr>index := 3\<rparr>) ''hi'' example_commitments [2, 4] =
     Inr (2352145, example_signer\<lparr>index := 3\<rparr>)"
  using lagrange_coefficient_without_own_index [of "[2, 4]" "example_signer\<lparr>index := 3\<rparr>" 0
      3 4 "residue_point 9" 11 residue_env "''hi''" example_commitments "residue_point 19" 26729 1]
  by (simp add: ex_defs)

subsection \<open>Threshold increase\<close>

lemma increase_threshold_result:
  assumes "increase_threshold P other_shares = Inr P'"
  shows "\<exists>ss s own.
           shares P = Some ss \<and> aggregate_share P = Some s \<and> s \<noteq> 0 \<and>
           tuple_get ss (index P - 1) = Inr own \<and>
           P' = P\<lparr>aggregate_share :=
                    Some (s + ((own + sum_list other_shares) mod Q * index P) mod Q)\<rparr>"
  using assms
  by (auto simp: increase_threshold_def Let_def
      split: option.splits list.splits sum.splits if_splits)

lemma increase_threshold_congruent:
  assumes "increase_threshold P other_shares = Inr P'"
  shows "\<exists>ss s own s'.
           shares P = Some ss \<and> aggregate_share P = Some s \<and>
           tuple_get ss (index P - 1) = Inr own \<and> aggregate_share P' = Some s' \<and>
           s' mod Q = (s + (own + sum_list other_shares) mod Q * index P) mod Q"
proof -
  from increase_threshold_result [OF assms] obtain ss s own where
    r: "shares P = Some ss" "aggregate_share P = Some s"
       "tuple_get ss (index P - 1) = Inr own"
       "P' = P\<lparr>aggregate_share :=
                    Some (s + ((own + sum_list other_shares) mod Q * index P) mod Q)\<rparr>"
    by blast
  have "(s + ((own + sum_list other_shares) mod Q * index P) mod Q) mod Q =
        (s + (own + sum_list other_shares) mod Q * index P) mod Q"
    by (simp add: mod_add_right_eq)
  with r show ?thesis by simp
qed

text \<open>
  Claim C4 says that after \<open>increase_threshold\<close> the stored aggregate share is
  \<open>(s + \<delta> * index) mod Q\<close>, a residue in \<open>[0, Q)\<close>. The assignment
  \<open>self.aggregate_share += (aggregate_share * self.index) % Q\<close> reduces the product
  only, so the stored value is congruent to that residue (the lemma above) but need not
  equal it: for index 1, shares \<open>(1, 2, 3)\<close>, aggregate share \<open>Q - 1\<close> and other
  shares \<open>(0, 0)\<close> the method stores \<open>Q\<close>, where the claim's value is \<open>0\<close>.
\<close>

theorem increase_threshold_unreduced:
  "increase_threshold
     ((new_participant 1 2 3)\<lparr>shares := Some [1, 2, 3], aggregate_share := Some (Q - 1)\<rparr>)
     [0, 0] =
   Inr ((new_participant 1 2 3)\<lparr>shares := Some [1, 2, 3], aggregate_share := Some Q\<rparr>) \<and>
   (Q - 1 + (1 + 0 + 0) mod Q * 1) mod Q = 0 \<and> Q \<noteq> 0 \<and> \<not> Q < Q"
  by (simp add: increase_threshold_def tuple_get_def new_participant_def Q_def)

text \<open>
  Claim C5 says that \<open>increase_threshold\<close> raises exactly when the shares or the
  aggregate share are uninitialised, and not for an aggregate share set to \<open>0\<close>. The
  test \<open>if not self.aggregate_share\<close> is also true for \<open>0\<close>: with the shares set and
  the aggregate share \<open>0\<close> the method raises "has not been initialized".
\<close>

theorem increase_threshold_zero_share:
  "increase_threshold
     ((new_participant 1 2 3)\<lparr>shares := Some [1, 2, 3], aggregate_share := Some 0\<rparr>)
     [0, 0] =
   Inl (ValueError ''Participant's aggregate share has not been initialized.'')"
  by (simp add: increase_threshold_def new_participant_def)

subsection \<open>Construction\<close>

text \<open>
  Claim C9 says that the constructor raises for integer arguments out of range. It has
  no range test: \<open>Participant(0, 5, 3)\<close> is constructed.
\<close>

theorem Participant_init_out_of_range:
  "\<not> isl (Participant_init (PyInt 0) (PyInt 5) (PyInt 3))"
  by (simp add: Participant_init_def)

text \<open>
  Claim C9, amended. With three integers the constructor never raises, whatever their
  range: it stores them as given in a participant whose every other attribute is unset
  (\<open>None\<close>, or the empty list for the two list attributes). It raises exactly when some
  argument is not an integer, and what it raises is the \<open>ValueError\<close> "All arguments
  (index, threshold, participants) must be integers."
\<close>

theorem Participant_init_integers:
  "Participant_init (PyInt i) (PyInt t) (PyInt n) =
     Inr \<lparr>index = i, threshold = t, participants = n,
          coefficients = None, coefficient_commitments = None,
          proof_of_knowledge = None, shares = None, aggregate_share = None,
          nonce_pair = None, nonce_commitment_pair = None, public_key = None,
          repair_shares = None, aggregate_repair_share = None,
          nonce_pair_r_ij = None, nonce_R_ij_commitments = [], nonce_R_ij = [],
          aggregate_nonce_R_i = None, challenge_hash_c = None,
          participant_a_i = None, agg_pk = None, partial_signature_s_ij = None\<rparr> \<and>
   Participant_init (PyInt i) (PyInt t) (PyInt n) = Inr (new_participant i t n) \<and>
   index (new_participant i t n) = i \<and> threshold (new_participant i t n) = t \<and>
   participants (new_participant i t n) = n \<and>
   Participant_init PyOther b c =
     Inl (ValueError ''All arguments (index, threshold, participants) must be integers.'') \<and>
   Participant_init a PyOther c =
     Inl (ValueError ''All arguments (index, threshold, participants) must be integers.'') \<and>
   Participant_init a b PyOther =
     Inl (ValueError ''All arguments (index, threshold, participants) must be integers.'') \<and>
   isl (Participant_init a b c) = (a = PyOther \<or> b = PyOther \<or> c = PyOther) \<and>
   (Participant_init a b c =
      Inl (ValueError ''All arguments (index, threshold, participants) must be integers.'')) =
     (a = PyOther \<or> b = PyOther \<or> c = PyOther)"
  by (cases a; cases b; cases c) (simp_all add: Participant_init_def new_participant_def)

subsection \<open>Repair shares\<close>

lemma length_sample: "length (fst (sample n rng)) = n"
  by (simp add: sample_def)

text \<open>
  Claim C6 says that \<open>repair_shares\<close> has exactly \<open>threshold\<close> entries for every
  participant whose aggregate share is set. Nothing keeps the threshold at \<open>1\<close> or
  above (the constructor tests no range, and \<open>decrement_threshold\<close> takes a threshold
  of \<open>1\<close> to \<open>0\<close>): at threshold \<open>0\<close>, \<open>range(threshold - 1)\<close> is empty and
  \<open>repair_shares\<close> is the one entry \<open>final\<close>.
\<close>

theorem generate_repair_shares_threshold_zero:
  "map_sum id fst
     (generate_repair_shares (\<lambda>k. 7 + int k) (example_signer\<lparr>threshold := 0\<rparr>) [1, 2] 3) =
     Inr (example_signer\<lparr>threshold := 0, repair_shares := Some [Q - 11]\<rparr>) \<and>
   threshold (example_signer\<lparr>threshold := 0\<rparr>) = 0 \<and>
   int (length [Q - 11]) \<noteq> threshold (example_signer\<lparr>threshold := 0\<rparr>)"
  by (simp add: generate_repair_shares_def sample_def Let_def ex_defs)

text \<open>
  Claim C6, amended. For a participant whose aggregate share \<open>s\<close> is set, after
  \<open>generate_repair_shares(repair_participants, l)\<close> returns, the tuple
  \<open>repair_participants\<close> is duplicate-free and \<open>repair_shares\<close> is
  \<open>max(threshold - 1, 0)\<close> random scalars, each in \<open>[0, Q)\<close>, followed by
  \<open>final = (\<lambda> * s - sum of the random scalars) mod Q\<close>: exactly \<open>threshold\<close> entries
  when \<open>threshold \<ge> 1\<close>, one entry otherwise. The sum of all entries is \<open>\<lambda> * s\<close>
  modulo \<open>Q\<close>, where \<open>\<lambda>\<close> is the Lagrange coefficient of the cohort at \<open>x = l\<close>: the
  product over the entries \<open>p_j\<close> of \<open>repair_participants\<close> other than \<open>self.index\<close>
  of \<open>(l - p_j) * pow(self.index - p_j, Q - 2, Q)\<close>, modulo \<open>Q\<close>; when \<open>self.index\<close>
  is in the cohort, those entries are the cohort with that one entry removed.
\<close>

theorem generate_repair_shares_sum:
  assumes "generate_repair_shares rng P repair_participants l = Inr (P', rng')"
  shows "\<exists>s lam rs final.
           aggregate_share P = Some s \<and>
           distinct repair_participants \<and>
           lagrange_coefficient P repair_participants l = Inr lam \<and>
           lam = prod_list (map (\<lambda>j. (l - j) * pow_mod (index P - j) (Q - 2) Q)
                   (filter (\<lambda>j. j \<noteq> index P) repair_participants)) mod Q \<and>
           (index P \<in> set repair_participants \<longrightarrow>
              filter (\<lambda>j. j \<noteq> index P) repair_participants =
                remove1 (index P) repair_participants) \<and>
           P' = P\<lparr>repair_shares := Some (rs @ [final])\<rparr> \<and>
           repair_shares P' = Some (rs @ [final]) \<and>
           rs = map (\<lambda>k. rng k mod Q) [0..<nat (threshold P - 1)] \<and>
           (\<forall>r \<in> set rs. 0 \<le> r \<and> r < Q) \<and>
           length rs = nat (threshold P - 1) \<and>
           int (length (rs @ [final])) = max (threshold P - 1) 0 + 1 \<and>
           (1 \<le> threshold P \<longrightarrow> int (length (rs @ [final])) = threshold P) \<and>
           (threshold P < 1 \<longrightarrow> length (rs @ [final]) = 1) \<and>
           final = (lam * s - sum_list rs) mod Q \<and>
           sum_list (rs @ [final]) mod Q = (lam * s) mod Q"
proof -
  let ?rs = "map (\<lambda>k. rng k mod Q) [0..<nat (threshold P - 1)]"
  let ?lam = "prod_list (map (\<lambda>j. (l - j) * pow_mod (index P - j) (Q - 2) Q)
                   (filter (\<lambda>j. j \<noteq> index P) repair_participants)) mod Q"
  from assms obtain s lam where
    s: "aggregate_share P = Some s" and
    lam: "lagrange_coefficient P repair_participants l = Inr lam" and
    P': "P' = P\<lparr>repair_shares := Some (?rs @ [(lam * s - sum_list ?rs) mod Q])\<rparr>"
    by (auto simp: generate_repair_shares_def sample_def Let_def
        split: option.splits sum.splits)
  have d: "distinct repair_participants"
  proof (rule ccontr)
    assume "\<not> distinct repair_participants"
    from lagrange_coefficient_duplicate [OF this, of P l] lam show False
      by simp
  qed
  have l: "lam = ?lam"
    using lagrange_coefficient_distinct [OF d, of P l] lam by simp
  have f: "index P \<in> set repair_participants \<longrightarrow>
              filter (\<lambda>j. j \<noteq> index P) repair_participants =
                remove1 (index P) repair_participants"
    using d by (simp add: filter_neq_remove1)
  have q: "0 < Q"
    by (simp add: Q_def)
  have b: "\<forall>r \<in> set ?rs. 0 \<le> r \<and> r < Q"
    using q by auto
  have "(sum_list ?rs + (lam * s - sum_list ?rs) mod Q) mod Q = (lam * s) mod Q"
    by (simp add: mod_add_right_eq)
  then have e: "sum_list (?rs @ [(lam * s - sum_list ?rs) mod Q]) mod Q = (lam * s) mod Q"
    by simp
  have n: "int (length (?rs @ [(lam * s - sum_list ?rs) mod Q])) = max (threshold P - 1) 0 + 1"
    by simp
  have m: "1 \<le> threshold P \<longrightarrow>
      int (length (?rs @ [(lam * s - sum_list ?rs) mod Q])) = threshold P"
    by simp
  have z: "threshold P < 1 \<longrightarrow> length (?rs @ [(lam * s - sum_list ?rs) mod Q]) = 1"
    by simp
  have k: "length ?rs = nat (threshold P - 1)"
    by simp
  have p: "repair_shares P' = Some (?rs @ [(lam * s - sum_list ?rs) mod Q])"
    by (simp add: P')
  have c: "(lam * s - sum_list ?rs) mod Q = (lam * s - sum_list ?rs) mod Q"
    by (rule refl)
  have rr: "?rs = ?rs"
    by (rule refl)
  show ?thesis
    apply (rule exI [of _ s], rule exI [of _ lam], rule exI [of _ ?rs],
        rule exI [of _ "(lam * s - sum_list ?rs) mod Q"])
    apply (intro conjI)
    apply (rule s, rule d, rule lam, rule l, rule f, rule P', rule p, rule rr, rule b, rule k,
        rule n, rule m, rule z, rule c, rule e)
    done
qed

theorem generate_repair_shares_sum_witness:
  "map_sum id fst (generate_repair_shares (\<lambda>k. 7 + int k) example_signer [1, 2] 3) =
     Inr (example_signer\<lparr>repair_shares := Some [7, Q - 18]\<rparr>) \<and>
   int (length [7, Q - 18]) = threshold example_signer \<and>
   sum_list [7, Q - 18] mod Q = ((Q - 1) * 11) mod Q \<and>
   lagrange_coefficient example_signer [1, 2] 3 = Inr (Q - 1) \<and>
   Q - 1 = prod_list (map (\<lambda>j. (3 - j) * pow_mod (index example_signer - j) (Q - 2) Q)
             (remove1 (index example_signer) [1, 2])) mod Q \<and>
   distinct [1, 2 :: int]"
proof -
  have r: "generate_repair_shares (\<lambda>k. 7 + int k) example_signer [1, 2] 3 =
     Inr (example_signer\<lparr>repair_shares := Some [7, Q - 18]\<rparr>, \<lambda>k. 7 + int (k + 1))"
    by (simp add: generate_repair_shares_def sample_def Let_def ex_defs)
  have v: "int (length [7, Q - 18]) = threshold example_signer \<and>
     sum_list [7, Q - 18] mod Q = ((Q - 1) * 11) mod Q \<and>
     lagrange_coefficient example_signer [1, 2] 3 = Inr (Q - 1)"
    by (simp add: ex_defs)
  have i: "index example_signer \<in> set [1, 2]"
    by (simp add: example_signer_def new_participant_def)
  from generate_repair_shares_sum [OF r] obtain lam where
    d: "distinct [1, 2 :: int]" and
    a: "lagrange_coefficient example_signer [1, 2] 3 = Inr lam" and
    l: "lam = prod_list (map (\<lambda>j. (3 - j) * pow_mod (index example_signer - j) (Q - 2) Q)
              (filter (\<lambda>j. j \<noteq> index example_signer) [1, 2])) mod Q" and
    f: "index example_signer \<in> set [1, 2] \<longrightarrow>
          filter (\<lambda>j. j \<noteq> index example_signer) [1, 2] = remove1 (index example_signer) [1, 2]"
    by (elim exE conjE)
  from a v have "lam = Q - 1"
    by simp
  with l f i have "Q - 1 = prod_list (map (\<lambda>j. (3 - j) * pow_mod (index example_signer - j) (Q - 2) Q)
             (remove1 (index example_signer) [1, 2])) mod Q"
    by (simp only:)
  with r v d show ?thesis
    by simp
qed

subsection \<open>Lengths of coefficients and commitments\<close>

lemma compute_coefficient_commitments_result:
  assumes "compute_coefficient_commitments E P = Inr P'"
  shows "\<exists>cs. coefficients P = Some cs \<and> cs \<noteq> [] \<and>
           P' = P\<lparr>coefficient_commitments :=
                    Some (map (\<lambda>coefficient. point_mul E coefficient (G E)) cs)\<rparr>"
  using assms
  by (auto simp: compute_coefficient_commitments_def split: option.splits list.splits)

lemma compute_proof_of_knowledge_keeps:
  assumes "compute_proof_of_knowledge E rng P = Inr (P', rng')"
  shows "coefficients P' = coefficients P \<and> threshold P' = threshold P"
  using compute_proof_of_knowledge_result [OF assms] by auto

lemma init_keygen_result:
  assumes "init_keygen E rng P = Inr (P', rng')"
  shows "coefficients P' = Some (fst (sample (nat (threshold P)) rng)) \<and>
         coefficient_commitments P' =
           Some (map (\<lambda>c. point_mul E c (G E)) (fst (sample (nat (threshold P)) rng))) \<and>
         fst (sample (nat (threshold P)) rng) \<noteq> [] \<and> threshold P' = threshold P"
proof -
  let ?P1 = "P\<lparr>coefficients := Some (fst (sample (nat (threshold P)) rng))\<rparr>"
  from assms obtain P2 rng2 where
    a: "compute_proof_of_knowledge E (snd (sample (nat (threshold P)) rng)) ?P1 = Inr (P2, rng2)"
    and b: "compute_coefficient_commitments E P2 = Inr P'"
    by (auto simp: init_keygen_def generate_polynomial_def split: prod.splits sum.splits)
  from compute_proof_of_knowledge_keeps [OF a] compute_coefficient_commitments_result [OF b]
  show ?thesis by auto
qed

lemma init_refresh_result:
  assumes "init_refresh E rng P = Inr (P', rng')"
  shows "coefficients P' = Some (0 # fst (sample (nat (threshold P - 1)) rng)) \<and>
         coefficient_commitments P' =
           Some (map (\<lambda>c. point_mul E c (G E)) (0 # fst (sample (nat (threshold P - 1)) rng))) \<and>
         threshold P' = threshold P"
proof -
  let ?P1 = "P\<lparr>coefficients := Some (0 # fst (sample (nat (threshold P - 1)) rng))\<rparr>"
  from assms have b: "compute_coefficient_commitments E ?P1 = Inr P'"
    by (auto simp: init_refresh_def generate_refresh_polynomial_def split: prod.splits sum.splits)
  from compute_coefficient_commitments_result [OF b]
  show ?thesis by auto
qed

lemma init_threshold_increase_result:
  assumes "init_threshold_increase E rng P new_threshold = Inr (P', rng')"
  shows "coefficients P' = Some (fst (sample (nat (new_threshold - 1)) rng)) \<and>
         coefficient_commitments P' =
           Some (map (\<lambda>c. point_mul E c (G E)) (fst (sample (nat (new_threshold - 1)) rng))) \<and>
         fst (sample (nat (new_threshold - 1)) rng) \<noteq> [] \<and>
         threshold P < new_threshold \<and> threshold P' = new_threshold"
proof -
  let ?P1 = "P\<lparr>coefficients := Some (fst (sample (nat (new_threshold - 1)) rng))\<rparr>"
  from assms obtain P2 rng2 P3 where
    lt: "threshold P < new_threshold" and
    a: "compute_proof_of_knowledge E (snd (sample (nat (new_threshold - 1)) rng)) ?P1 = Inr (P2, rng2)"
    and b: "compute_coefficient_commitments E P2 = Inr P3"
    and c: "P' = P3\<lparr>threshold := new_threshold\<rparr>"
    by (auto simp: init_threshold_increase_def generate_threshold_increase_polynomial_def
        split: prod.splits sum.splits if_splits)
  from compute_proof_of_knowledge_keeps [OF a] compute_coefficient_commitments_result [OF b] c lt
  show ?thesis by auto
qed

text \<open>
  Claim C3, amended. After \<open>init_keygen\<close> returns, and after \<open>init_refresh\<close> returns
  for a participant with \<open>threshold \<ge> 1\<close>, the coefficients and the coefficient
  commitments are both set, have the same length, and that length is the stored
  threshold. After \<open>init_threshold_increase(new_threshold)\<close> returns they are both
  set and have the same length \<open>new_threshold - 1\<close> (the polynomial has degree
  \<open>new_threshold - 2\<close>), one less than the threshold then stored, \<open>new_threshold\<close>.
\<close>

theorem init_coefficient_lengths:
  "(init_keygen E rng P = Inr (P', rng') \<longrightarrow>
      (\<exists>cs cms. coefficients P' = Some cs \<and> coefficient_commitments P' = Some cms \<and>
         length cs = length cms \<and> int (length cs) = threshold P')) \<and>
   (init_refresh E rng P = Inr (P', rng') \<and> 1 \<le> threshold P \<longrightarrow>
      (\<exists>cs cms. coefficients P' = Some cs \<and> coefficient_commitments P' = Some cms \<and>
         length cs = length cms \<and> int (length cs) = threshold P')) \<and>
   (init_threshold_increase E rng P new_threshold = Inr (P', rng') \<longrightarrow>
      (\<exists>cs cms. coefficients P' = Some cs \<and> coefficient_commitments P' = Some cms \<and>
         length cs = length cms \<and> int (length cs) = new_threshold - 1 \<and>
         threshold P' = new_threshold))"
proof (intro conjI impI)
  assume "init_keygen E rng P = Inr (P', rng')"
  from init_keygen_result [OF this]
  show "\<exists>cs cms. coefficients P' = Some cs \<and> coefficient_commitments P' = Some cms \<and>
         length cs = length cms \<and> int (length cs) = threshold P'"
    by (auto simp: length_sample sample_def)
next
  assume "init_refresh E rng P = Inr (P', rng') \<and> 1 \<le> threshold P"
  then have r: "init_refresh E rng P = Inr (P', rng')" and t: "1 \<le> threshold P"
    by simp_all
  from init_refresh_result [OF r] t
  show "\<exists>cs cms. coefficients P' = Some cs \<and> coefficient_commitments P' = Some cms \<and>
         length cs = length cms \<and> int (length cs) = threshold P'"
    by (auto simp: length_sample)
next
  assume "init_threshold_increase E rng P new_threshold = Inr (P', rng')"
  from init_threshold_increase_result [OF this]
  show "\<exists>cs cms. coefficients P' = Some cs \<and> coefficient_commitments P' = Some cms \<and>
         length cs = length cms \<and> int (length cs) = new_threshold - 1 \<and>
         threshold P' = new_threshold"
    by (auto simp: length_sample sample_def)
qed

lemma upt_0_2: "[0..<2] = [0, Suc 0]"
  by (simp add: numeral_2_eq_2)

text \<open>The definitions to unfold when an initialiser is evaluated on an example.\<close>

lemmas init_defs = upt_0_2 init_keygen_def init_refresh_def init_threshold_increase_def
  generate_polynomial_def generate_refresh_polynomial_def
  generate_threshold_increase_polynomial_def compute_proof_of_knowledge_def
  compute_coefficient_commitments_def sample_def residue_env_def Let_def to_bytes1_def
  residue_mul_def residue_point_def infinity_def Q_def new_participant_def

lemma init_threshold_increase_example:
  "\<exists>P' rng'. init_threshold_increase residue_env (\<lambda>k. 7 + int k) (new_participant 1 2 3) 3 =
      Inr (P', rng')"
  by (simp add: init_defs)

lemma init_keygen_example:
  "\<exists>P' rng'. init_keygen residue_env (\<lambda>k. 7 + int k) (new_participant 1 2 3) = Inr (P', rng')"
  by (simp add: init_defs)

lemma init_refresh_example:
  "\<exists>P' rng'. init_refresh residue_env (\<lambda>k. 7 + int k) (new_participant 1 2 3) = Inr (P', rng')"
  by (simp add: init_defs)

text \<open>
  Claim C3 says that the lengths equal the stored threshold after each of the three
  initialisers. After \<open>init_threshold_increase(3)\<close> on a participant of threshold 2
  there are two coefficients and two commitments, and the threshold is 3.
\<close>

theorem init_threshold_increase_lengths_differ:
  "\<not> isl (init_threshold_increase residue_env (\<lambda>k. 7 + int k) (new_participant 1 2 3) 3) \<and>
   map_option length (coefficients (fst (projr
     (init_threshold_increase residue_env (\<lambda>k. 7 + int k) (new_participant 1 2 3) 3)))) = Some 2 \<and>
   map_option length (coefficient_commitments (fst (projr
     (init_threshold_increase residue_env (\<lambda>k. 7 + int k) (new_participant 1 2 3) 3)))) = Some 2 \<and>
   threshold (fst (projr
     (init_threshold_increase residue_env (\<lambda>k. 7 + int k) (new_participant 1 2 3) 3))) = 3"
proof -
  obtain P' rng' where
    r: "init_threshold_increase residue_env (\<lambda>k. 7 + int k) (new_participant 1 2 3) 3 =
          Inr (P', rng')"
    using init_threshold_increase_example by blast
  from init_threshold_increase_result [OF r] show ?thesis
    unfolding r by (simp add: length_sample)
qed

theorem init_coefficient_lengths_witness:
  "(\<exists>P' rng' cs cms.
      init_keygen residue_env (\<lambda>k. 7 + int k) (new_participant 1 2 3) = Inr (P', rng') \<and>
      coefficients P' = Some cs \<and> coefficient_commitments P' = Some cms \<and>
      length cs = length cms \<and> int (length cs) = threshold P') \<and>
   (\<exists>P' rng' cs cms.
      init_refresh residue_env (\<lambda>k. 7 + int k) (new_participant 1 2 3) = Inr (P', rng') \<and>
      coefficients P' = Some cs \<and> coefficient_commitments P' = Some cms \<and>
      length cs = length cms \<and> int (length cs) = threshold P') \<and>
   (\<exists>P' rng' cs cms.
      init_threshold_increase residue_env (\<lambda>k. 7 + int k) (new_participant 1 2 3) 3 =
        Inr (P', rng') \<and>
      coefficients P' = Some cs \<and> coefficient_commitments P' = Some cms \<and>
      length cs = length cms \<and> int (length cs) = 3 - 1 \<and> threshold P' = 3)"
proof -
  let ?P = "new_participant 1 2 3" and ?r = "\<lambda>k. 7 + int k"
  obtain P1 r1 where k: "init_keygen residue_env ?r ?P = Inr (P1, r1)"
    using init_keygen_example by blast
  obtain P2 r2 where f: "init_refresh residue_env ?r ?P = Inr (P2, r2)"
    using init_refresh_example by blast
  obtain P3 r3 where i: "init_threshold_increase residue_env ?r ?P 3 = Inr (P3, r3)"
    using init_threshold_increase_example by blast
  have t: "1 \<le> threshold ?P"
    by (simp add: new_participant_def)
  from init_coefficient_lengths [where E = residue_env and rng = ?r and P = ?P and P' = P1 and rng' = r1] k
  have "\<exists>cs cms. coefficients P1 = Some cs \<and> coefficient_commitments P1 = Some cms \<and>
         length cs = length cms \<and> int (length cs) = threshold P1"
    by blast
  moreover from init_coefficient_lengths [where E = residue_env and rng = ?r and P = ?P and P' = P2 and rng' = r2] f t
  have "\<exists>cs cms. coefficients P2 = Some cs \<and> coefficient_commitments P2 = Some cms \<and>
         length cs = length cms \<and> int (length cs) = threshold P2"
    by blast
  moreover from init_coefficient_lengths [where E = residue_env and rng = ?r and P = ?P and P' = P3 and rng' = r3 and new_threshold = 3] i
  have "\<exists>cs cms. coefficients P3 = Some cs \<and> coefficient_commitments P3 = Some cms \<and>
         length cs = length cms \<and> int (length cs) = 3 - 1 \<and> threshold P3 = 3"
    by blast
  ultimately show ?thesis
    using k f i by blast
qed

end
